theory Spec2Isabelle
  imports Main "HOL-Library.Sublist"
begin

section \<open>JavaScript values and strings\<close>

text \<open>
  The fields the gate and the watcher read from JSON payloads are either missing, null,
  numbers or strings. \<open>truthy\<close> is JavaScript's truthiness, \<open>String_of\<close> is \<open>String(v)\<close>,
  \<open>nullish\<close> is the operator \<open>??\<close> and \<open>js_or\<close> is \<open>||\<close>. Identifiers are
  non-negative integers or strings (the front end sends the numeric agent 51650).
\<close>

datatype jv = Undefined | Null | Num nat | Str string

fun digits :: "nat \<Rightarrow> string" where
  "digits n = (if n < 10 then [char_of (48 + n)]
               else digits (n div 10) @ [char_of (48 + n mod 10)])"

declare digits.simps [simp del]

fun truthy :: "jv \<Rightarrow> bool" where
  "truthy Undefined = False"
| "truthy Null = False"
| "truthy (Num n) = (n \<noteq> 0)"
| "truthy (Str s) = (s \<noteq> [])"

fun String_of :: "jv \<Rightarrow> string" where
  "String_of Undefined = ''undefined''"
| "String_of Null = ''null''"
| "String_of (Num n) = digits n"
| "String_of (Str s) = s"

fun nullish :: "jv \<Rightarrow> jv \<Rightarrow> jv" where
  "nullish Undefined b = b"
| "nullish Null b = b"
| "nullish a b = a"

definition js_or :: "jv \<Rightarrow> jv \<Rightarrow> jv" where
  "js_or a b = (if truthy a then a else b)"

text \<open>
  Strings are lists of 8-bit characters (Latin-1). \<open>toLowerCase\<close> maps A-Z and the
  accented capitals U+00C0..U+00DE (except the multiplication sign U+00D7) to their small
  letters; \<open>trim\<close> removes the white space and line terminators of that range from
  both ends.
\<close>

definition lower_char :: "char \<Rightarrow> char" where
  "lower_char c =
     (let n = (of_char c :: nat)
      in if (65 \<le> n \<and> n \<le> 90) \<or> (192 \<le> n \<and> n \<le> 222 \<and> n \<noteq> 215)
         then char_of (n + 32) else c)"

definition toLowerCase :: "string \<Rightarrow> string" where
  "toLowerCase s = map lower_char s"

definition is_space :: "char \<Rightarrow> bool" where
  "is_space c = ((of_char c :: nat) \<in> {9, 10, 11, 12, 13, 32, 160})"

definition trim :: "string \<Rightarrow> string" where
  "trim s = rev (dropWhile is_space (rev (dropWhile is_space s)))"

section \<open>The lock table, timers and the release operation\<close>

text \<open>
  An entry of \<open>agentLocks\<close>. A field that the object does not have is \<open>None\<close>
  (\<open>Undefined\<close> for the call identifier); the handles of \<open>setTimeout\<close> and
  \<open>setInterval\<close> are numbers drawn from a counter.
\<close>

record lock =
  currentCallId :: jv
  startedAt :: "nat option"
  timer :: "nat option"
  interval :: "nat option"

text \<open>The variables a watcher's closure keeps between its ticks.\<close>

record watch =
  w_agentId :: string
  w_callLogId :: jv
  w_startedAt :: nat
  lastStatus :: "string option"
  startLogged :: bool
  seenOngoing :: bool
  seenOngoingAt :: nat
  lastListCheckAt :: nat
  consecutiveErrors :: nat
  lastSuccessAt :: nat

text \<open>
  The process state: the lock table; the pending \<open>setTimeout\<close> callbacks (each is a
  call of \<open>releaseAgentLock\<close>, kept as due time, agent and reason); the intervals that
  have not been cleared; the closure of every watcher, by its interval handle; the ticks
  whose callback has started and awaits the provider; the next fresh handle; and the lines
  \<open>Released lock for agent ... (reason)\<close> written so far.
\<close>

record server =
  agentLocks :: "string \<Rightarrow> lock option"
  timeouts :: "nat \<Rightarrow> (nat \<times> string \<times> string) option"
  intervals :: "nat set"
  watchers :: "nat \<Rightarrow> watch option"
  inflight :: "nat list"
  next_handle :: nat
  released :: "(string \<times> string) list"

definition init_server :: server where
  "init_server = \<lparr>agentLocks = Map.empty, timeouts = Map.empty, intervals = {},
     watchers = Map.empty, inflight = [], next_handle = 0, released = []\<rparr>"

definition clearInterval :: "nat \<Rightarrow> server \<Rightarrow> server" where
  "clearInterval i s = s\<lparr>intervals := intervals s - {i}\<rparr>"

definition clearTimeout :: "nat \<Rightarrow> server \<Rightarrow> server" where
  "clearTimeout t s = s\<lparr>timeouts := (timeouts s)(t := None)\<rparr>"

definition releaseAgentLock :: "string \<Rightarrow> string \<Rightarrow> server \<Rightarrow> server" where
  "releaseAgentLock agentId reason s =
     (let s1 = (case agentLocks s agentId of
                  None \<Rightarrow> s
                | Some lock \<Rightarrow>
                    (let sa = (case interval lock of Some i \<Rightarrow> clearInterval i s | None \<Rightarrow> s)
                     in (case timer lock of Some t \<Rightarrow> clearTimeout t sa | None \<Rightarrow> sa)))
      in s1\<lparr>agentLocks := (agentLocks s1)(agentId := None),
            released := released s1 @ [(agentId, reason)]\<rparr>)"

section \<open>Status vocabulary and classification\<close>

text \<open>The two sets of \<open>omnidimProxy.js\<close>, in the order of the source.\<close>

definition FINAL_STATUSES :: "string list" where
  "FINAL_STATUSES =
     [''completed'', ''failed'', ''busy'', ''no-answer'', ''no_answer'', ''not_answered'',
      ''canceled'', ''cancelled'', ''hangup'', ''hang_up'', ''ended'',
      ''disconnected'', ''finished'', ''complete'', ''completed_successfully'']"

definition ONGOING_STATUSES :: "string list" where
  "ONGOING_STATUSES =
     [''in_progress'', ''in-progress'', ''ringing'', ''dialing'', ''connected'', ''live'',
      ''ongoing'', ''active'', ''answer'', ''answered'', ''talking'']"

text \<open>
  A call log as the provider returns it, from the detail endpoint (after the envelope
  \<open>call_log_data\<close> has been removed) or as an item of the list endpoint. Only the
  fields that the server or the client reads are kept; \<open>log_id\<close> is the field \<open>id\<close>
  and \<open>artifact_recordingUrl\<close> is \<open>artifact?.recordingUrl\<close>.
\<close>

record callLog =
  log_id :: jv
  call_log_id :: jv
  call_status :: jv
  status :: jv
  state :: jv
  callStatus :: jv
  final_status :: jv
  recording_url :: jv
  recordingUrl :: jv
  artifact_recordingUrl :: jv
  ended_at :: jv
  end_time :: jv
  duration :: jv

definition no_callLog :: callLog where
  "no_callLog = \<lparr>log_id = Undefined, call_log_id = Undefined, call_status = Undefined,
     status = Undefined, state = Undefined, callStatus = Undefined, final_status = Undefined,
     recording_url = Undefined, recordingUrl = Undefined, artifact_recordingUrl = Undefined,
     ended_at = Undefined, end_time = Undefined, duration = Undefined\<rparr>"

text \<open>\<open>(c.call_status ?? c.status ?? c.state) || ''\<close>, turned into a string.\<close>

definition rawStatus :: "callLog \<Rightarrow> string" where
  "rawStatus c =
     String_of (js_or (nullish (nullish (call_status c) (status c)) (state c)) (Str []))"

definition normalise :: "string \<Rightarrow> string" where
  "normalise raw = trim (toLowerCase raw)"

definition statusText :: "callLog \<Rightarrow> string" where
  "statusText c = normalise (rawStatus c)"

definition hasEndArtifacts :: "callLog \<Rightarrow> bool" where
  "hasEndArtifacts c =
     (truthy (recording_url c) \<or> truthy (ended_at c) \<or> truthy (end_time c)
      \<or> truthy (duration c))"

text \<open>
  The watcher has no classifier function of its own: it tests the normalised status
  against \<open>ONGOING_STATUSES\<close> (line 62) and releases on
  \<open>FINAL_STATUSES.has(status) || hasEndArtifacts\<close> (line 104). \<open>isOngoing\<close> and
  \<open>isFinal\<close> are these two tests, and \<open>classify\<close> is their combination, the
  release test first, on a raw status string and the artifact flag.
\<close>

definition isOngoing :: "string \<Rightarrow> bool" where
  "isOngoing st = (st \<noteq> [] \<and> st \<in> set ONGOING_STATUSES)"

definition isFinal :: "string \<Rightarrow> bool \<Rightarrow> bool" where
  "isFinal st artifacts = (st \<in> set FINAL_STATUSES \<or> artifacts)"

datatype classification = Unknown | Ongoing | Final

definition classify :: "string \<Rightarrow> bool \<Rightarrow> classification" where
  "classify raw artifacts =
     (let st = normalise raw
      in if isFinal st artifacts then Final
         else if isOngoing st then Ongoing
         else Unknown)"

section \<open>Provider errors\<close>

text \<open>
  What axios throws: \<open>e.response?.status\<close>, \<open>e.code\<close> and \<open>e.message\<close>.
  \<open>error_code\<close> is \<open>e.response?.status || e.code || e.message\<close>.
\<close>

record axiosError =
  response_status :: "nat option"
  err_code :: "string option"
  err_message :: string

definition error_code :: "axiosError \<Rightarrow> jv" where
  "error_code e =
     js_or (js_or (case response_status e of None \<Rightarrow> Undefined | Some n \<Rightarrow> Num n)
                  (case err_code e of None \<Rightarrow> Undefined | Some c \<Rightarrow> Str c))
           (Str (err_message e))"

text \<open>
  The regular expression \<open>/ECONN|ETIMEDOUT|ENET|EAI_AGAIN|Bad Gateway|Gateway/i\<close>:
  one of the words occurs in the string, letters A-Z compared without case.
\<close>

definition ascii_lower :: "char \<Rightarrow> char" where
  "ascii_lower c =
     (let n = (of_char c :: nat) in if 65 \<le> n \<and> n \<le> 90 then char_of (n + 32) else c)"

fun occurs_in :: "string \<Rightarrow> string \<Rightarrow> bool" where
  "occurs_in p [] = (p = [])"
| "occurs_in p (c # cs) = (prefix p (c # cs) \<or> occurs_in p cs)"

definition gateway_regex :: "string \<Rightarrow> bool" where
  "gateway_regex s =
     (\<exists>p \<in> set [''ECONN'', ''ETIMEDOUT'', ''ENET'', ''EAI_AGAIN'', ''Bad Gateway'', ''Gateway''].
        occurs_in (map ascii_lower p) (map ascii_lower s))"

definition is5xx :: "axiosError \<Rightarrow> bool" where
  "is5xx e =
     ((case response_status e of None \<Rightarrow> False | Some n \<Rightarrow> 500 \<le> n \<and> n < 600)
      \<or> gateway_regex (String_of (error_code e)))"

section \<open>The completion watcher\<close>

definition MAX_WATCH_MS :: nat where
  "MAX_WATCH_MS = 10 * 60 * 1000"

definition INTERVAL_MS :: nat where
  "INTERVAL_MS = 1000"

text \<open>
  \<open>startCompletionWatcher(agentId, callLogId, token)\<close> at the time \<open>now\<close>: the failsafe
  timeout, the interval with a fresh closure, and the entry rewritten with the call
  identifier, the start time and both handles. The bearer token only goes into the
  requests and is left out.
\<close>

definition startCompletionWatcher :: "string \<Rightarrow> jv \<Rightarrow> nat \<Rightarrow> server \<Rightarrow> server" where
  "startCompletionWatcher agentId callLogId now s =
     (let t = next_handle s;
          i = Suc t;
          w = \<lparr>w_agentId = agentId, w_callLogId = callLogId, w_startedAt = now,
               lastStatus = None, startLogged = False, seenOngoing = False,
               seenOngoingAt = 0, lastListCheckAt = 0, consecutiveErrors = 0,
               lastSuccessAt = now\<rparr>
      in s\<lparr>agentLocks := (agentLocks s)(agentId \<mapsto>
              \<lparr>currentCallId = callLogId, startedAt = Some now, timer = Some t,
               interval = Some i\<rparr>),
            timeouts := (timeouts s)(t \<mapsto> (now + MAX_WATCH_MS, agentId, ''timeout'')),
            intervals := insert i (intervals s),
            watchers := (watchers s)(i \<mapsto> w),
            next_handle := Suc i\<rparr>)"

text \<open>
  A pending \<open>setTimeout\<close> callback runs: it is a call of \<open>releaseAgentLock\<close>.
  A handle that was cleared, or that already ran, does nothing.
\<close>

definition timeoutFire :: "nat \<Rightarrow> server \<Rightarrow> server" where
  "timeoutFire t s =
     (case timeouts s t of
        None \<Rightarrow> s
      | Some (due, agentId, reason) \<Rightarrow>
          releaseAgentLock agentId reason (s\<lparr>timeouts := (timeouts s)(t := None)\<rparr>))"

text \<open>
  The interval fires: the callback starts, sends the detail request and waits for it
  (lines 50 to 54). A cleared interval starts nothing.
\<close>

definition intervalFire :: "nat \<Rightarrow> server \<Rightarrow> server" where
  "intervalFire i s = (if i \<in> intervals s then s\<lparr>inflight := inflight s @ [i]\<rparr> else s)"

text \<open>
  The cross-check of lines 84 to 89 and 122 to 127: the status of the list item whose
  \<open>id\<close> or \<open>call_log_id\<close> is the watched call, when that status is final. The list is
  \<open>None\<close> when the body holds no array.
\<close>

definition crossCheck :: "jv \<Rightarrow> callLog list option \<Rightarrow> string option" where
  "crossCheck callLogId items =
     (case items of
        None \<Rightarrow> None
      | Some its \<Rightarrow>
          (case find (\<lambda>it. String_of (log_id it) = String_of callLogId
                          \<or> String_of (call_log_id it) = String_of callLogId) its of
             None \<Rightarrow> None
           | Some match \<Rightarrow>
               (let listStatus = statusText match
                in if listStatus \<in> set FINAL_STATUSES then Some listStatus else None)))"

text \<open>
  The body of the \<open>try\<close> after the detail request has answered (lines 55 to 108), at
  the time \<open>now\<close>; \<open>listResp\<close> is what the list request answers if the body makes it
  (\<open>Inl\<close> when it throws). One clock value stands for every \<open>Date.now()\<close> of the tick.
  Differences of times are natural numbers: where JavaScript would get a negative number,
  the model gets 0, and both are below the positive thresholds they are compared with.
\<close>

definition onDetail ::
  "nat \<Rightarrow> callLog \<Rightarrow> axiosError + callLog list option \<Rightarrow> watch \<Rightarrow> server \<Rightarrow> watch \<times> server" where
  "onDetail now callData listResp w s =
     (let st = statusText callData;
          artifacts = hasEndArtifacts callData;
          w1 = (if isOngoing st
                then w\<lparr>seenOngoing := True,
                       seenOngoingAt := (if seenOngoingAt w = 0 then now else seenOngoingAt w)\<rparr>
                else w);
          w2 = w1\<lparr>consecutiveErrors := 0, lastSuccessAt := now, startLogged := True\<rparr>;
          listCheck = (seenOngoing w2 \<and> seenOngoingAt w2 \<noteq> 0
                       \<and> now - seenOngoingAt w2 \<ge> 5000 \<and> now - lastListCheckAt w2 \<ge> 3000);
          w3 = (if listCheck then w2\<lparr>lastListCheckAt := now\<rparr> else w2);
          s1 = (if listCheck
                then (case listResp of
                        Inl e2 \<Rightarrow> s
                      | Inr items \<Rightarrow>
                          (case crossCheck (w_callLogId w) items of
                             None \<Rightarrow> s
                           | Some listStatus \<Rightarrow>
                               releaseAgentLock (w_agentId w)
                                 (''final_status_list:'' @ listStatus) s))
                else s);
          w4 = (if Some st \<noteq> lastStatus w3 then w3\<lparr>lastStatus := Some st\<rparr> else w3);
          s2 = (if isFinal st artifacts
                then releaseAgentLock (w_agentId w)
                       (''final_status:'' @
                          (if st \<noteq> [] then st
                           else if artifacts then ''ended_by_artifacts'' else ''unknown'')) s1
                else s1)
      in (w4, s2))"

text \<open>
  The \<open>catch\<close> of the detail request (lines 109 to 143). The emergency unlock of lines
  133 to 138 stands inside the \<open>catch (e3)\<close> of the list request, which is inside the
  \<open>if\<close> of line 115.
\<close>

definition onError ::
  "nat \<Rightarrow> axiosError \<Rightarrow> axiosError + callLog list option \<Rightarrow> watch \<Rightarrow> server \<Rightarrow> watch \<times> server" where
  "onError now e listResp w s =
     (let w1 = w\<lparr>consecutiveErrors := Suc (consecutiveErrors w)\<rparr>
      in if seenOngoing w1 \<and> now - lastListCheckAt w1 \<ge> 3000 \<and> is5xx e
         then (w1\<lparr>lastListCheckAt := now\<rparr>,
               (case listResp of
                  Inr items \<Rightarrow>
                    (case crossCheck (w_callLogId w) items of
                       None \<Rightarrow> s
                     | Some listStatus \<Rightarrow>
                         releaseAgentLock (w_agentId w)
                           (''final_status_list_on_error:'' @ listStatus) s)
                | Inl e3 \<Rightarrow>
                    (let errorSinceMs = now - lastSuccessAt w1
                     in if seenOngoing w1 \<and> is5xx e
                           \<and> (consecutiveErrors w1 \<ge> 10 \<or> errorSinceMs \<ge> 45000)
                        then releaseAgentLock (w_agentId w) ''api_error_fallback'' s
                        else s)))
         else (w1, s))"

text \<open>
  A tick that is in flight resumes with the answer of the detail request (\<open>Inl\<close> when
  axios throws). Nothing in the callback asks whether the interval was cleared or whose
  call the lock entry holds, so a tick in flight resumes whatever happened meanwhile.
\<close>

definition tickResume ::
  "nat \<Rightarrow> nat \<Rightarrow> axiosError + callLog \<Rightarrow> axiosError + callLog list option \<Rightarrow> server \<Rightarrow> server" where
  "tickResume i now detail listResp s =
     (if i \<notin> set (inflight s) then s
      else (case watchers s i of
              None \<Rightarrow> s
            | Some w \<Rightarrow>
                (let s0 = s\<lparr>inflight := remove1 i (inflight s)\<rparr>;
                     r = (case detail of
                            Inr callData \<Rightarrow> onDetail now callData listResp w s0
                          | Inl e \<Rightarrow> onError now e listResp w s0)
                 in (snd r)\<lparr>watchers := (watchers (snd r))(i \<mapsto> fst r)\<rparr>)))"

text \<open>A whole tick with nothing in between: the interval fires and its request answers.\<close>

definition tick ::
  "nat \<Rightarrow> nat \<Rightarrow> axiosError + callLog \<Rightarrow> axiosError + callLog list option \<Rightarrow> server \<Rightarrow> server" where
  "tick i now detail listResp s = tickResume i now detail listResp (intervalFire i s)"

section \<open>The inbound endpoints\<close>

text \<open>
  A request: the \<open>Authorization\<close> header, if there is one, and the field
  \<open>agent_id\<close> of the body (\<open>None\<close> when the request has no body at all, \<open>Some
  Undefined\<close> when the body lacks the field). The other fields of the body are forwarded
  to the provider and never read by the gate.
\<close>

record request =
  authorization :: "string option"
  body_agent_id :: "jv option"

text \<open>What the provider's dispatch answers: the three places an identifier may be in.\<close>

record dispatchData =
  resp_call_log_id :: jv
  resp_id :: jv
  resp_call_id :: jv

datatype replyBody =
    NoToken
  | CallInProgress string jv
  | Payload dispatchData
  | Forwarded
  | Failure
  | ReleaseOk string

datatype reply = Reply nat replyBody

fun reply_code :: "reply \<Rightarrow> nat" where
  "reply_code (Reply n b) = n"

fun split_on :: "char \<Rightarrow> string \<Rightarrow> string list" where
  "split_on d [] = [[]]"
| "split_on d (c # cs) =
     (if c = d then [] # split_on d cs
      else (case split_on d cs of [] \<Rightarrow> [[c]] | p # ps \<Rightarrow> (c # p) # ps))"

text \<open>\<open>req.headers.authorization?.split(' ')[1]\<close>, and whether it is truthy.\<close>

definition token_of :: "string option \<Rightarrow> string option" where
  "token_of h =
     (case h of
        None \<Rightarrow> None
      | Some a \<Rightarrow> (case split_on CHR '' '' a of x # t # ts \<Rightarrow> Some t | _ \<Rightarrow> None))"

definition has_token :: "request \<Rightarrow> bool" where
  "has_token req = (case token_of (authorization req) of None \<Rightarrow> False | Some t \<Rightarrow> t \<noteq> [])"

definition agentKey_of :: "jv \<Rightarrow> string" where
  "agentKey_of agent_id = String_of (js_or agent_id (Str ''default''))"

definition blocks :: "lock \<Rightarrow> bool" where
  "blocks existing =
     (truthy (currentCallId existing)
      \<or> (case startedAt existing of None \<Rightarrow> False | Some t \<Rightarrow> t \<noteq> 0))"

definition error_status :: "axiosError \<Rightarrow> nat" where
  "error_status e = (case response_status e of None \<Rightarrow> 500 | Some n \<Rightarrow> if n \<noteq> 0 then n else 500)"

text \<open>
  \<open>POST /calls/dispatch\<close> up to its \<open>await\<close> (lines 157 to 183): it answers at once
  (\<open>Inl\<close>: 401, 409, or 500 when destructuring a missing body throws into the
  \<open>catch\<close>), or it takes the lock and sends the request to the provider (\<open>Inr\<close>, with
  the agent key). No other callback runs between the test and the \<open>set\<close>.
\<close>

definition dispatchAccept :: "nat \<Rightarrow> request \<Rightarrow> server \<Rightarrow> (reply + string) \<times> server" where
  "dispatchAccept now req s =
     (case body_agent_id req of
        None \<Rightarrow> (Inl (Reply 500 Failure), s)
      | Some agent_id \<Rightarrow>
          if \<not> has_token req then (Inl (Reply 401 NoToken), s)
          else
            (let agentKey = agentKey_of agent_id;
                 blocked = (case agentLocks s agentKey of
                              None \<Rightarrow> None
                            | Some existing \<Rightarrow> if blocks existing then Some existing else None)
             in (case blocked of
                   Some existing \<Rightarrow>
                     (Inl (Reply 409
                        (CallInProgress agentKey (js_or (currentCallId existing) Undefined))), s)
                 | None \<Rightarrow>
                     (Inr agentKey,
                      s\<lparr>agentLocks := (agentLocks s)(agentKey \<mapsto>
                          \<lparr>currentCallId = Null, startedAt = Some now, timer = None,
                           interval = None\<rparr>)\<rparr>))))"

definition no_lock :: lock where
  "no_lock = \<lparr>currentCallId = Undefined, startedAt = None, timer = None, interval = None\<rparr>"

text \<open>
  The rest of the handler, when the provider has answered (lines 199 to 220): \<open>Inl\<close>
  when axios throws (a transport error or a status outside 2xx), \<open>Inr\<close> the payload.
\<close>

definition dispatchResume ::
  "nat \<Rightarrow> string \<Rightarrow> axiosError + dispatchData \<Rightarrow> server \<Rightarrow> reply \<times> server" where
  "dispatchResume now agentKey result s =
     (case result of
        Inl error \<Rightarrow> (Reply (error_status error) Failure, s)
      | Inr data \<Rightarrow>
          (let callLogId = js_or (js_or (resp_call_log_id data) (resp_id data)) (resp_call_id data)
           in if truthy callLogId
              then (Reply 200 (Payload data), startCompletionWatcher agentKey callLogId now s)
              else
                (let existingLock = (case agentLocks s agentKey of None \<Rightarrow> no_lock | Some l \<Rightarrow> l);
                     t = next_handle s
                 in (Reply 200 (Payload data),
                     s\<lparr>timeouts := (timeouts s)(t \<mapsto> (now + 3000, agentKey, ''no_id_auto_release'')),
                       next_handle := Suc t,
                       agentLocks := (agentLocks s)(agentKey \<mapsto> existingLock\<lparr>timer := Some t\<rparr>)\<rparr>))))"

text \<open>The whole handler when nothing else runs while the provider is awaited.\<close>

definition dispatch ::
  "nat \<Rightarrow> request \<Rightarrow> axiosError + dispatchData \<Rightarrow> server \<Rightarrow> reply \<times> server" where
  "dispatch now req result s =
     (case dispatchAccept now req s of
        (Inl r, s') \<Rightarrow> (r, s')
      | (Inr agentKey, s') \<Rightarrow> dispatchResume now agentKey result s')"

text \<open>\<open>POST /agent/release\<close> (lines 371 to 376).\<close>

definition agentRelease :: "request \<Rightarrow> server \<Rightarrow> reply \<times> server" where
  "agentRelease req s =
     (let agent_id = (case body_agent_id req of None \<Rightarrow> Undefined | Some v \<Rightarrow> v);
          agentKey = agentKey_of agent_id
      in (Reply 200 (ReleaseOk agentKey), releaseAgentLock agentKey ''frontend_release'' s))"

text \<open>
  The three pass-through endpoints, as far as their status code goes: \<open>POST
  /calls/bulk_call/create\<close> reads the body first, the two \<open>GET\<close> endpoints do not; all
  three answer 401 without a token and otherwise forward what the provider answers.
\<close>

definition bulkCallCreate :: "request \<Rightarrow> axiosError + unit \<Rightarrow> reply" where
  "bulkCallCreate req result =
     (case body_agent_id req of
        None \<Rightarrow> Reply 500 Failure
      | Some agent_id \<Rightarrow>
          if \<not> has_token req then Reply 401 NoToken
          else (case result of Inl error \<Rightarrow> Reply (error_status error) Failure
                             | Inr u \<Rightarrow> Reply 200 Forwarded))"

definition callLogs :: "request \<Rightarrow> axiosError + unit \<Rightarrow> reply" where
  "callLogs req result =
     (if \<not> has_token req then Reply 401 NoToken
      else (case result of Inl error \<Rightarrow> Reply (error_status error) Failure
                         | Inr u \<Rightarrow> Reply 200 Forwarded))"

definition callLogDetail :: "request \<Rightarrow> axiosError + unit \<Rightarrow> reply" where
  "callLogDetail req result =
     (if \<not> has_token req then Reply 401 NoToken
      else (case result of Inl error \<Rightarrow> Reply (error_status error) Failure
                         | Inr u \<Rightarrow> Reply 200 Forwarded))"

section \<open>The client's wait for completion\<close>

text \<open>The two sets that \<open>waitForCallCompletion\<close> in \<open>MainFile.jsx\<close> declares.\<close>

definition client_FINAL_STATUSES :: "string list" where
  "client_FINAL_STATUSES =
     [''completed'', ''failed'', ''busy'', ''no-answer'', ''no_answer'', ''ended'', ''hangup'',
      ''hang_up'', ''canceled'', ''cancelled'', ''not_answered'',
      ''disconnected'', ''finished'', ''complete'', ''completed_successfully'']"

definition client_ONGOING_STATUSES :: "string list" where
  "client_ONGOING_STATUSES =
     [''in_progress'', ''in-progress'', ''ringing'', ''dialing'', ''connected'', ''live'',
      ''ongoing'', ''active'', ''answer'', ''answered'', ''talking'']"

definition MAX_POLL_TIME :: nat where
  "MAX_POLL_TIME = 10 * 60 * 1000"

text \<open>
  What \<open>fetch\<close> gives: it rejects (or the body does not parse), or it answers with a
  status code and a body; \<open>resp.ok\<close> is a code from 200 to 299.
\<close>

datatype 'a fetched = Rejected | Response nat 'a

definition resp_ok :: "nat \<Rightarrow> bool" where
  "resp_ok code = (200 \<le> code \<and> code < 300)"

record pollState =
  c_seenOngoing :: bool
  consecutiveNonOngoing :: nat
  c_seenOngoingAt :: "nat option"
  c_lastListCheckAt :: nat
  errorStreak :: nat
  c_lastSuccessAt :: nat

definition init_poll :: "nat \<Rightarrow> pollState" where
  "init_poll startTime = \<lparr>c_seenOngoing = False, consecutiveNonOngoing = 0,
     c_seenOngoingAt = None, c_lastListCheckAt = 0, errorStreak = 0,
     c_lastSuccessAt = startTime\<rparr>"

definition client_hasEndArtifacts :: "callLog \<Rightarrow> bool" where
  "client_hasEndArtifacts c =
     (truthy (recording_url c) \<or> truthy (recordingUrl c) \<or> truthy (artifact_recordingUrl c)
      \<or> truthy (ended_at c) \<or> truthy (end_time c) \<or> truthy (duration c))"

definition client_listStatus :: "callLog \<Rightarrow> string" where
  "client_listStatus m =
     normalise (String_of (js_or
       (nullish (nullish (nullish (nullish (call_status m) (status m)) (state m))
          (callStatus m)) (final_status m)) (Str [])))"

definition with_list_status :: "callLog \<Rightarrow> string \<Rightarrow> callLog" where
  "with_list_status callData listStatus =
     callData\<lparr>call_status := js_or (Str listStatus) (call_status callData)\<rparr>"

text \<open>
  The error branches (lines 688 to 707; both do the same): \<open>Inl\<close> is the value the
  function returns, \<open>Inr\<close> the variables with which the loop goes on.
\<close>

definition clientError :: "nat \<Rightarrow> pollState \<Rightarrow> callLog + pollState" where
  "clientError now p =
     (let p1 = p\<lparr>errorStreak := Suc (errorStreak p)\<rparr>;
          sinceMs = now - c_lastSuccessAt p1
      in if c_seenOngoing p1 \<and> (errorStreak p1 \<ge> 10 \<or> sinceMs \<ge> 45000)
         then Inl (no_callLog\<lparr>call_status := Str ''ended_by_error_fallback''\<rparr>)
         else Inr p1)"

text \<open>The list cross-check of lines 654 to 687, with the items found in the answer.\<close>

definition clientListCheck ::
  "nat \<Rightarrow> jv \<Rightarrow> callLog \<Rightarrow> callLog list fetched \<Rightarrow> pollState \<Rightarrow> callLog + pollState" where
  "clientListCheck now callLogId callData listResp p =
     (if c_seenOngoing p
         \<and> (case c_seenOngoingAt p of None \<Rightarrow> False
             | Some t \<Rightarrow> t \<noteq> 0 \<and> now - t \<ge> 5000)
         \<and> now - c_lastListCheckAt p \<ge> 3000
      then
        (let p1 = p\<lparr>c_lastListCheckAt := now\<rparr>
         in (case listResp of
               Rejected \<Rightarrow> Inr p1
             | Response code items \<Rightarrow>
                 if \<not> resp_ok code then Inr p1
                 else
                   (case find (\<lambda>it. String_of (log_id it) = String_of callLogId
                                   \<or> String_of (call_log_id it) = String_of callLogId) items of
                      None \<Rightarrow> Inr p1
                    | Some match \<Rightarrow>
                        (let listStatus = client_listStatus match
                         in if listStatus \<in> set client_FINAL_STATUSES
                            then Inl (with_list_status callData listStatus)
                            else if listStatus \<noteq> [] \<and> listStatus \<notin> set client_ONGOING_STATUSES
                            then
                              (let p2 = p1\<lparr>consecutiveNonOngoing := Suc (consecutiveNonOngoing p1)\<rparr>
                               in if consecutiveNonOngoing p2 \<ge> 2
                                  then Inl (with_list_status callData listStatus)
                                  else Inr p2)
                            else Inr p1))))
      else Inr p)"

text \<open>One turn of the \<open>while\<close> loop (lines 585 to 711) at the time \<open>now\<close>.\<close>

definition clientPoll ::
  "nat \<Rightarrow> jv \<Rightarrow> callLog fetched \<Rightarrow> callLog list fetched \<Rightarrow> pollState \<Rightarrow> callLog + pollState" where
  "clientPoll now callLogId detail listResp p =
     (case detail of
        Rejected \<Rightarrow> clientError now p
      | Response code callData \<Rightarrow>
          if \<not> resp_ok code then clientError now p
          else
            (let p1 = p\<lparr>errorStreak := 0, c_lastSuccessAt := now\<rparr>;
                 st = statusText callData;
                 p2 = (if st \<in> set client_ONGOING_STATUSES
                       then p1\<lparr>c_seenOngoingAt :=
                                 (if \<not> c_seenOngoing p1 then Some now else c_seenOngoingAt p1),
                               c_seenOngoing := True, consecutiveNonOngoing := 0\<rparr>
                       else p1)
             in if st \<in> set client_FINAL_STATUSES then Inl callData
                else if client_hasEndArtifacts callData then Inl callData
                else if st \<noteq> [] \<and> st \<notin> set client_ONGOING_STATUSES
                then
                  (let p3 = p2\<lparr>consecutiveNonOngoing := Suc (consecutiveNonOngoing p2)\<rparr>
                   in if consecutiveNonOngoing p3 \<ge> 2 then Inl callData
                      else clientListCheck now callLogId callData listResp p3)
                else if st = [] \<and> c_seenOngoing p2
                then
                  (let p3 = p2\<lparr>consecutiveNonOngoing := Suc (consecutiveNonOngoing p2)\<rparr>
                   in if consecutiveNonOngoing p3 \<ge> 2 then Inl callData
                      else clientListCheck now callLogId callData listResp p3)
                else clientListCheck now callLogId callData listResp p2))"

text \<open>
  The loop over the answers it gets, each with the time of its turn: \<open>Returned (Some
  c)\<close> when the call is taken as finished, \<open>Returned None\<close> at the timeout,
  \<open>Waiting\<close> when the answers given so far have not ended the loop.
\<close>

datatype pollResult = Returned "callLog option" | Waiting pollState

fun pollLoop ::
  "nat \<Rightarrow> jv \<Rightarrow> (nat \<times> callLog fetched \<times> callLog list fetched) list \<Rightarrow> pollState \<Rightarrow> pollResult" where
  "pollLoop startTime callLogId [] p = Waiting p"
| "pollLoop startTime callLogId ((now, detail, listResp) # rest) p =
     (if now - startTime < MAX_POLL_TIME
      then (case clientPoll now callLogId detail listResp p of
              Inl callData \<Rightarrow> Returned (Some callData)
            | Inr p' \<Rightarrow> pollLoop startTime callLogId rest p')
      else Returned None)"

definition waitForCallCompletion ::
  "nat \<Rightarrow> jv \<Rightarrow> (nat \<times> callLog fetched \<times> callLog list fetched) list \<Rightarrow> pollResult" where
  "waitForCallCompletion startTime callLogId answers =
     pollLoop startTime callLogId answers (init_poll startTime)"

section \<open>Runs and the inputs of the scenarios\<close>

text \<open>Successive whole ticks of one watcher, each with its time and its two answers.\<close>

fun ticks ::
  "nat \<Rightarrow> (nat \<times> (axiosError + callLog) \<times> (axiosError + callLog list option)) list
     \<Rightarrow> server \<Rightarrow> server" where
  "ticks i [] s = s"
| "ticks i ((now, detail, listResp) # rest) s = ticks i rest (tick i now detail listResp s)"

definition request_A1 :: request where
  "request_A1 = \<lparr>authorization = Some ''Bearer tok'', body_agent_id = Some (Str ''A1'')\<rparr>"

definition payload_c1 :: dispatchData where
  "payload_c1 = \<lparr>resp_call_log_id = Str ''c1'', resp_id = Undefined, resp_call_id = Undefined\<rparr>"

definition payload_no_id :: dispatchData where
  "payload_no_id =
     \<lparr>resp_call_log_id = Undefined, resp_id = Undefined, resp_call_id = Undefined\<rparr>"

definition error_500 :: axiosError where
  "error_500 = \<lparr>response_status = Some 500, err_code = Some ''ERR_BAD_RESPONSE'',
     err_message = ''Request failed with status code 500''\<rparr>"

definition error_503 :: axiosError where
  "error_503 = \<lparr>response_status = Some 503, err_code = Some ''ERR_BAD_RESPONSE'',
     err_message = ''Request failed with status code 503''\<rparr>"

text \<open>A call log that has a \<open>call_status\<close> and nothing else.\<close>

definition with_status :: "string \<Rightarrow> callLog" where
  "with_status st = no_callLog\<lparr>call_status := Str st\<rparr>"

text \<open>
  The server after the dispatch for agent \<open>A1\<close> at 1000 ms answered \<open>{call_log_id:
  "c1"}\<close> and the first tick, at 2000 ms, saw \<open>connected\<close>.
\<close>

definition connected_A1 :: server where
  "connected_A1 = tick 1 2000 (Inr (with_status ''connected'')) (Inr None)
     (snd (dispatch 1000 request_A1 (Inr payload_c1) init_server))"

section \<open>Release\<close>

lemma releaseAgentLock_locks:
  "agentLocks (releaseAgentLock a r s) = (agentLocks s)(a := None)"
  by (simp add: releaseAgentLock_def clearInterval_def clearTimeout_def Let_def
      split: option.split)

text \<open>
  C9. \<open>releaseAgentLock\<close> is a total function of the agent, the reason and the
  state (it has no failing branch): called once, twice in a row, or on a table that has no
  entry for the agent, it leaves no entry for that agent, and the second call changes
  nothing in the table.
\<close>

theorem release_idempotent:
  "agentLocks (releaseAgentLock a r s) a = None
   \<and> agentLocks (releaseAgentLock a r' (releaseAgentLock a r s)) a = None
   \<and> agentLocks (releaseAgentLock a r' (releaseAgentLock a r s))
       = agentLocks (releaseAgentLock a r s)"
  by (auto simp: releaseAgentLock_locks)

section \<open>The endpoints\<close>

lemma agentKey_default: "agentKey_of Undefined = ''default''"
  by (simp add: agentKey_of_def js_or_def)

lemmas endpoint_eval = dispatch_def dispatchAccept_def dispatchResume_def has_token_def
  token_of_def agentKey_of_def js_or_def blocks_def init_server_def error_status_def
  request_A1_def payload_c1_def payload_no_id_def error_500_def no_lock_def Let_def

text \<open>
  C10. \<open>POST /agent/release\<close> never reads the \<open>Authorization\<close> header: whatever
  the request, it answers 200 with \<open>ok: true\<close> and the agent key, never 401, and the
  key has no lock entry afterwards. Without a body, or without \<open>agent_id\<close> in it, the key
  is \<open>default\<close>, the key under which a dispatch without \<open>agent_id\<close> takes its lock.
  The other four endpoints answer 401 to a request without a token (the two \<open>POST\<close>
  ones once the body is there to be read).
\<close>

theorem release_endpoint_open:
  "fst (agentRelease req s)
     = Reply 200 (ReleaseOk (agentKey_of (case body_agent_id req of None \<Rightarrow> Undefined | Some v \<Rightarrow> v)))
   \<and> reply_code (fst (agentRelease req s)) \<noteq> 401
   \<and> agentLocks (snd (agentRelease req s))
        (agentKey_of (case body_agent_id req of None \<Rightarrow> Undefined | Some v \<Rightarrow> v)) = None
   \<and> ((body_agent_id req = None \<or> body_agent_id req = Some Undefined) \<longrightarrow>
        fst (agentRelease req s) = Reply 200 (ReleaseOk ''default'')
        \<and> agentLocks (snd (agentRelease req s)) ''default'' = None)
   \<and> (has_token req \<and> body_agent_id req = Some Undefined \<and> agentLocks s ''default'' = None \<longrightarrow>
        fst (dispatchAccept now req s) = Inr ''default''
        \<and> agentLocks (snd (dispatchAccept now req s)) ''default'' \<noteq> None)
   \<and> (\<not> has_token req \<and> body_agent_id req \<noteq> None \<longrightarrow>
        fst (dispatchAccept now req s) = Inl (Reply 401 NoToken)
        \<and> bulkCallCreate req result = Reply 401 NoToken)
   \<and> (\<not> has_token req \<longrightarrow>
        callLogs req result = Reply 401 NoToken \<and> callLogDetail req result = Reply 401 NoToken)"
  by (auto simp: agentRelease_def Let_def releaseAgentLock_locks agentKey_default
      dispatchAccept_def bulkCallCreate_def callLogs_def callLogDetail_def)

theorem release_endpoint_open_witness:
  "fst (agentRelease \<lparr>authorization = None, body_agent_id = None\<rparr> init_server)
     = Reply 200 (ReleaseOk ''default'')
   \<and> has_token \<lparr>authorization = Some ''Bearer tok'', body_agent_id = Some Undefined\<rparr>
   \<and> agentLocks init_server ''default'' = None
   \<and> fst (dispatchAccept 1000
        \<lparr>authorization = Some ''Bearer tok'', body_agent_id = Some Undefined\<rparr> init_server)
     = Inr ''default''
   \<and> \<not> has_token \<lparr>authorization = None, body_agent_id = Some (Num 51650)\<rparr>
   \<and> fst (dispatchAccept 1000
        \<lparr>authorization = None, body_agent_id = Some (Num 51650)\<rparr> init_server)
     = Inl (Reply 401 NoToken)
   \<and> callLogs \<lparr>authorization = None, body_agent_id = Some (Num 51650)\<rparr> (Inr ())
     = Reply 401 NoToken"
proof -
  let ?none = "\<lparr>authorization = None, body_agent_id = None\<rparr>"
  let ?tok = "\<lparr>authorization = Some ''Bearer tok'', body_agent_id = Some Undefined\<rparr>"
  let ?anon = "\<lparr>authorization = None, body_agent_id = Some (Num 51650)\<rparr>"
  have t: "has_token ?tok"
    by (simp add: has_token_def token_of_def)
  have n: "\<not> has_token ?anon"
    by (simp add: has_token_def token_of_def)
  have e: "agentLocks init_server ''default'' = None"
    by (simp add: init_server_def)
  have a: "fst (agentRelease ?none init_server) = Reply 200 (ReleaseOk ''default'')"
    using release_endpoint_open [of ?none init_server 1000 "Inr ()"] by (auto simp: agentKey_default)
  have b: "fst (dispatchAccept 1000 ?tok init_server) = Inr ''default''"
    using t e release_endpoint_open [of ?tok init_server 1000 "Inr ()"] by (auto simp: agentKey_default)
  have c: "fst (dispatchAccept 1000 ?anon init_server) = Inl (Reply 401 NoToken)
      \<and> callLogs ?anon (Inr ()) = Reply 401 NoToken"
    using n release_endpoint_open [of ?anon init_server 1000 "Inr ()"] by (auto simp: agentKey_default)
  show ?thesis using t n e a b c by simp
qed

text \<open>
  C8. When the provider's answer to a dispatch holds no identifier, the handler starts no
  watcher (no interval, no closure, no tick in flight is added, so no status poll is ever
  made), schedules one timeout due 3000 ms later, and that timeout removes the agent's
  lock entry with the reason \<open>no_id_auto_release\<close>.
\<close>

theorem no_id_auto_release:
  assumes "\<not> truthy (js_or (js_or (resp_call_log_id d) (resp_id d)) (resp_call_id d))"
  shows "fst (dispatchResume now k (Inr d) s) = Reply 200 (Payload d)
    \<and> intervals (snd (dispatchResume now k (Inr d) s)) = intervals s
    \<and> watchers (snd (dispatchResume now k (Inr d) s)) = watchers s
    \<and> inflight (snd (dispatchResume now k (Inr d) s)) = inflight s
    \<and> timeouts (snd (dispatchResume now k (Inr d) s)) (next_handle s)
         = Some (now + 3000, k, ''no_id_auto_release'')
    \<and> agentLocks (timeoutFire (next_handle s) (snd (dispatchResume now k (Inr d) s))) k = None
    \<and> released (timeoutFire (next_handle s) (snd (dispatchResume now k (Inr d) s)))
         = released s @ [(k, ''no_id_auto_release'')]"
  using assms
  by (simp add: dispatchResume_def Let_def timeoutFire_def releaseAgentLock_def
      clearTimeout_def clearInterval_def split: option.split)

theorem no_id_auto_release_witness:
  "\<not> truthy (js_or (js_or (resp_call_log_id payload_no_id) (resp_id payload_no_id))
        (resp_call_id payload_no_id))
   \<and> fst (dispatch 1000 request_A1 (Inr payload_no_id) init_server) = Reply 200 (Payload payload_no_id)
   \<and> intervals (snd (dispatch 1000 request_A1 (Inr payload_no_id) init_server)) = {}
   \<and> timeouts (snd (dispatch 1000 request_A1 (Inr payload_no_id) init_server)) 0
       = Some (4000, ''A1'', ''no_id_auto_release'')
   \<and> agentLocks (timeoutFire 0 (snd (dispatch 1000 request_A1 (Inr payload_no_id) init_server)))
        ''A1'' = None"
proof -
  let ?s = "snd (dispatchAccept 1000 request_A1 init_server)"
  have h: "\<not> truthy (js_or (js_or (resp_call_log_id payload_no_id) (resp_id payload_no_id))
        (resp_call_id payload_no_id))"
    by (simp add: payload_no_id_def js_or_def)
  have acc: "fst (dispatchAccept 1000 request_A1 init_server) = Inr ''A1''"
    "next_handle ?s = 0" "intervals ?s = {}"
    by (simp_all add: endpoint_eval)
  have d: "dispatch 1000 request_A1 (Inr payload_no_id) init_server
      = dispatchResume 1000 ''A1'' (Inr payload_no_id) ?s"
    using acc(1) by (cases "dispatchAccept 1000 request_A1 init_server") (simp add: dispatch_def)
  show ?thesis
    using h acc(2,3) no_id_auto_release [OF h, of 1000 "''A1''" ?s]
    by (simp add: d)
qed

text \<open>
  C2, at the failing input: a dispatch for agent \<open>A1\<close> that the provider answers with
  HTTP 500. The handler answers 500 and leaves the entry it made at acceptance, with no
  timer and no interval in it; no timeout is pending and no interval runs, so only a
  request to \<open>/agent/release\<close> can remove it: the next dispatch for \<open>A1\<close>, more than ten
  minutes later, is refused with 409.
\<close>

theorem failed_dispatch_keeps_lock:
  "fst (dispatch 1000 request_A1 (Inl error_500) init_server) = Reply 500 Failure
   \<and> agentLocks (snd (dispatch 1000 request_A1 (Inl error_500) init_server)) ''A1''
       = Some \<lparr>currentCallId = Null, startedAt = Some 1000, timer = None, interval = None\<rparr>
   \<and> timeouts (snd (dispatch 1000 request_A1 (Inl error_500) init_server)) = Map.empty
   \<and> intervals (snd (dispatch 1000 request_A1 (Inl error_500) init_server)) = {}
   \<and> fst (dispatchAccept 700000 request_A1
            (snd (dispatch 1000 request_A1 (Inl error_500) init_server)))
       = Inl (Reply 409 (CallInProgress ''A1'' Undefined))"
  by (simp add: endpoint_eval)

lemma dispatchAccept_free:
  assumes "has_token r" "body_agent_id r = Some a" "agentLocks s (agentKey_of a) = None"
  shows "dispatchAccept t r s
    = (Inr (agentKey_of a), s\<lparr>agentLocks := (agentLocks s)(agentKey_of a \<mapsto>
         \<lparr>currentCallId = Null, startedAt = Some t, timer = None, interval = None\<rparr>)\<rparr>)"
  using assms by (simp add: dispatchAccept_def Let_def)

lemma dispatchAccept_blocked:
  assumes "has_token r" "body_agent_id r = Some a" "agentLocks s (agentKey_of a) = Some l"
    "blocks l"
  shows "dispatchAccept t r s
    = (Inl (Reply 409 (CallInProgress (agentKey_of a) (js_or (currentCallId l) Undefined))), s)"
  using assms by (simp add: dispatchAccept_def Let_def)

lemma dispatchAccept_granted:
  assumes "body_agent_id r = Some a" "fst (dispatchAccept t r s) = Inr k"
  shows "k = agentKey_of a \<and> snd (dispatchAccept t r s)
    = s\<lparr>agentLocks := (agentLocks s)(agentKey_of a \<mapsto>
         \<lparr>currentCallId = Null, startedAt = Some t, timer = None, interval = None\<rparr>)\<rparr>"
proof (cases "has_token r")
  case False
  with assms show ?thesis by (simp add: dispatchAccept_def)
next
  case True
  show ?thesis
  proof (cases "agentLocks s (agentKey_of a)")
    case None
    with assms True show ?thesis by (simp add: dispatchAccept_def Let_def)
  next
    case (Some l)
    with assms True show ?thesis
      by (cases "blocks l") (simp_all add: dispatchAccept_def Let_def)
  qed
qed

text \<open>
  C3, as the code has it. A dispatch with a token for an agent that has no entry is
  granted; when a dispatch is granted at a non-zero clock reading, the next dispatch with
  a token for the same agent, with nothing in between, is refused with 409 and no
  \<open>current_call_id\<close>, and the table stays as it is; and a dispatch is refused with 409
  whenever the agent's entry holds a call identifier or a non-zero reservation time, the
  reservation time alone being enough.
\<close>

theorem tryAcquire_exclusive:
  "(has_token r1 \<and> body_agent_id r1 = Some a1 \<and> agentLocks s (agentKey_of a1) = None \<longrightarrow>
      fst (dispatchAccept t1 r1 s) = Inr (agentKey_of a1))
   \<and> (has_token r2 \<and> body_agent_id r1 = Some a1 \<and> body_agent_id r2 = Some a2
      \<and> agentKey_of a1 = agentKey_of a2 \<and> 0 < t1
      \<and> fst (dispatchAccept t1 r1 s) = Inr k \<longrightarrow>
      dispatchAccept t2 r2 (snd (dispatchAccept t1 r1 s))
          = (Inl (Reply 409 (CallInProgress k Undefined)), snd (dispatchAccept t1 r1 s)))
   \<and> (has_token r \<and> body_agent_id r = Some a \<and> agentLocks s (agentKey_of a) = Some l
      \<and> (truthy (currentCallId l) \<or> (\<exists>t. startedAt l = Some t \<and> 0 < t)) \<longrightarrow>
      dispatchAccept t2 r s
          = (Inl (Reply 409 (CallInProgress (agentKey_of a)
                 (if truthy (currentCallId l) then currentCallId l else Undefined))), s))"
proof (intro conjI impI)
  assume "has_token r1 \<and> body_agent_id r1 = Some a1 \<and> agentLocks s (agentKey_of a1) = None"
  then show "fst (dispatchAccept t1 r1 s) = Inr (agentKey_of a1)"
    by (simp add: dispatchAccept_free)
next
  assume h: "has_token r2 \<and> body_agent_id r1 = Some a1 \<and> body_agent_id r2 = Some a2
      \<and> agentKey_of a1 = agentKey_of a2 \<and> 0 < t1 \<and> fst (dispatchAccept t1 r1 s) = Inr k"
  let ?l = "\<lparr>currentCallId = Null, startedAt = Some t1, timer = None, interval = None\<rparr>"
  let ?s = "snd (dispatchAccept t1 r1 s)"
  from h dispatchAccept_granted [of r1 a1 t1 s k]
  have k: "k = agentKey_of a2" and s': "agentLocks ?s (agentKey_of a2) = Some ?l"
    by simp_all
  from h have b: "blocks ?l" by (simp add: blocks_def)
  from h have "has_token r2" "body_agent_id r2 = Some a2" by simp_all
  from dispatchAccept_blocked [OF this s' b, of t2] k
  show "dispatchAccept t2 r2 ?s = (Inl (Reply 409 (CallInProgress k Undefined)), ?s)"
    by (simp add: js_or_def)
next
  assume h: "has_token r \<and> body_agent_id r = Some a \<and> agentLocks s (agentKey_of a) = Some l
      \<and> (truthy (currentCallId l) \<or> (\<exists>t. startedAt l = Some t \<and> 0 < t))"
  then have b: "blocks l" by (auto simp: blocks_def)
  from h have "has_token r" "body_agent_id r = Some a" "agentLocks s (agentKey_of a) = Some l"
    by simp_all
  from dispatchAccept_blocked [OF this b, of t2]
  show "dispatchAccept t2 r s
          = (Inl (Reply 409 (CallInProgress (agentKey_of a)
                 (if truthy (currentCallId l) then currentCallId l else Undefined))), s)"
    by (simp add: js_or_def)
qed

theorem tryAcquire_exclusive_witness:
  "has_token request_A1 \<and> body_agent_id request_A1 = Some (Str ''A1'')
   \<and> agentLocks init_server (agentKey_of (Str ''A1'')) = None \<and> (0::nat) < 1000
   \<and> fst (dispatchAccept 1000 request_A1 init_server) = Inr ''A1''
   \<and> dispatchAccept 1001 request_A1 (snd (dispatchAccept 1000 request_A1 init_server))
       = (Inl (Reply 409 (CallInProgress ''A1'' Undefined)),
          snd (dispatchAccept 1000 request_A1 init_server))"
proof -
  have h: "has_token request_A1" "body_agent_id request_A1 = Some (Str ''A1'')"
    "agentLocks init_server (agentKey_of (Str ''A1'')) = None" "agentKey_of (Str ''A1'') = ''A1''"
    by (simp_all add: has_token_def token_of_def request_A1_def init_server_def agentKey_of_def
        js_or_def)
  from h tryAcquire_exclusive [where ?r1.0 = request_A1 and ?a1.0 = "Str ''A1''"
      and s = init_server and ?t1.0 = 1000]
  have g: "fst (dispatchAccept 1000 request_A1 init_server) = Inr ''A1''"
    by simp
  from h g tryAcquire_exclusive [where ?r1.0 = request_A1 and ?a1.0 = "Str ''A1''"
      and ?r2.0 = request_A1 and ?a2.0 = "Str ''A1''" and s = init_server and ?t1.0 = 1000
      and ?t2.0 = 1001 and k = "''A1''"]
  show ?thesis by simp
qed

text \<open>
  The claim C3 as stated fails: a dispatch for \<open>A1\<close> is accepted at 1000 ms, the lock is
  released through \<open>/agent/release\<close> while the provider is awaited, and the provider then
  answers without an identifier. The handler writes an entry that holds a timer handle
  only; that entry exists, and the next dispatch for \<open>A1\<close> is granted.
\<close>

theorem timer_only_entry_counterexample:
  "agentLocks (snd (dispatchResume 2000 ''A1'' (Inr payload_no_id)
       (snd (agentRelease request_A1 (snd (dispatchAccept 1000 request_A1 init_server))))))
     ''A1''
     = Some \<lparr>currentCallId = Undefined, startedAt = None, timer = Some 0, interval = None\<rparr>
   \<and> fst (dispatchAccept 2500 request_A1 (snd (dispatchResume 2000 ''A1'' (Inr payload_no_id)
       (snd (agentRelease request_A1 (snd (dispatchAccept 1000 request_A1 init_server)))))))
     = Inr ''A1''"
  by (simp add: endpoint_eval agentRelease_def releaseAgentLock_def)

section \<open>Status classification\<close>

lemma lower_space: "is_space c \<Longrightarrow> lower_char c = c"
  by (auto simp: is_space_def lower_char_def)

lemma trim_padded:
  assumes l: "\<forall>c\<in>set l. is_space c" and r: "\<forall>c\<in>set r. is_space c"
    and t: "t \<noteq> []" "\<not> is_space (hd t)" "\<not> is_space (last t)"
  shows "trim (l @ t @ r) = t"
proof -
  from t obtain x xs where tx: "t = x # xs" and x: "\<not> is_space x"
    by (cases t) auto
  have "dropWhile is_space (l @ t @ r) = dropWhile is_space (t @ r)"
    using l by (simp add: dropWhile_append2)
  also have "\<dots> = t @ r" using tx x by simp
  finally have front: "dropWhile is_space (l @ t @ r) = t @ r" .
  from t have "rev t \<noteq> []" and "\<not> is_space (hd (rev t))"
    by (simp_all add: hd_rev)
  then obtain y ys where ty: "rev t = y # ys" and y: "\<not> is_space y"
    by (cases "rev t") auto
  have "dropWhile is_space (rev r @ rev t) = dropWhile is_space (rev t)"
    using r by (intro dropWhile_append2) simp
  also have "\<dots> = rev t" using ty y by simp
  finally have rear: "dropWhile is_space (rev r @ rev t) = rev t" .
  show ?thesis by (simp add: trim_def front rear)
qed

lemma vocabulary_shape:
  assumes "t \<in> set FINAL_STATUSES \<or> t \<in> set ONGOING_STATUSES"
  shows "t \<noteq> [] \<and> \<not> is_space (hd t) \<and> \<not> is_space (last t)"
  using assms by (auto simp: FINAL_STATUSES_def ONGOING_STATUSES_def is_space_def)

lemma ongoing_not_final: "t \<in> set ONGOING_STATUSES \<Longrightarrow> t \<notin> set FINAL_STATUSES"
  by (auto simp: FINAL_STATUSES_def ONGOING_STATUSES_def)

lemma normalise_padded:
  assumes "t \<in> set FINAL_STATUSES \<or> t \<in> set ONGOING_STATUSES" "toLowerCase u = t"
    "\<forall>c\<in>set l. is_space c" "\<forall>c\<in>set r. is_space c"
  shows "normalise (l @ u @ r) = t"
proof -
  have "map lower_char l = l" "map lower_char r = r"
    using assms(3,4) by (simp_all add: map_idI lower_space)
  then have "toLowerCase (l @ u @ r) = l @ t @ r"
    using assms(2) by (simp add: toLowerCase_def)
  then show ?thesis
    using trim_padded [OF assms(3,4)] vocabulary_shape [OF assms(1)]
    by (simp add: normalise_def)
qed

text \<open>
  C6, as the code has it. The classification is a function of the raw status string and
  the artifact flag, with no failing branch. A token of the Final set, in any mix of upper
  and lower case and with any white space around it, is Final whatever the flag; a token
  of the Ongoing set, written likewise, is Ongoing without artifacts and Final with them;
  every input whose normalised form is in neither set, the empty string among them, is
  Unknown without artifacts and Final with them.
\<close>

theorem status_classification:
  "(t \<in> set FINAL_STATUSES \<and> toLowerCase u = t
      \<and> (\<forall>c\<in>set l. is_space c) \<and> (\<forall>c\<in>set r. is_space c) \<longrightarrow>
      classify (l @ u @ r) artifacts = Final)
   \<and> (t \<in> set ONGOING_STATUSES \<and> toLowerCase u = t
      \<and> (\<forall>c\<in>set l. is_space c) \<and> (\<forall>c\<in>set r. is_space c) \<longrightarrow>
      classify (l @ u @ r) artifacts = (if artifacts then Final else Ongoing))
   \<and> (normalise raw \<notin> set FINAL_STATUSES \<and> normalise raw \<notin> set ONGOING_STATUSES \<longrightarrow>
      classify raw artifacts = (if artifacts then Final else Unknown))
   \<and> classify [] False = Unknown"
proof (intro conjI impI)
  assume "t \<in> set FINAL_STATUSES \<and> toLowerCase u = t
      \<and> (\<forall>c\<in>set l. is_space c) \<and> (\<forall>c\<in>set r. is_space c)"
  then have "normalise (l @ u @ r) = t" "t \<in> set FINAL_STATUSES"
    using normalise_padded [of t u l r] by simp_all
  then show "classify (l @ u @ r) artifacts = Final"
    by (simp add: classify_def isFinal_def)
next
  assume "t \<in> set ONGOING_STATUSES \<and> toLowerCase u = t
      \<and> (\<forall>c\<in>set l. is_space c) \<and> (\<forall>c\<in>set r. is_space c)"
  then have n: "normalise (l @ u @ r) = t" and o: "t \<in> set ONGOING_STATUSES"
    using normalise_padded [of t u l r] by simp_all
  from o have "t \<notin> set FINAL_STATUSES" "t \<noteq> []"
    using ongoing_not_final vocabulary_shape [of t] by simp_all
  with n o show "classify (l @ u @ r) artifacts = (if artifacts then Final else Ongoing)"
    by (simp add: classify_def isFinal_def isOngoing_def)
next
  assume "normalise raw \<notin> set FINAL_STATUSES \<and> normalise raw \<notin> set ONGOING_STATUSES"
  then show "classify raw artifacts = (if artifacts then Final else Unknown)"
    by (simp add: classify_def isFinal_def isOngoing_def)
next
  show "classify [] False = Unknown"
    by (simp add: classify_def isFinal_def isOngoing_def normalise_def trim_def toLowerCase_def
        FINAL_STATUSES_def)
qed

theorem status_classification_witness:
  "''completed'' \<in> set FINAL_STATUSES \<and> toLowerCase ''COMPLETED'' = ''completed''
   \<and> is_space CHR '' ''
   \<and> classify ('' '' @ ''COMPLETED'' @ '' '') False = Final
   \<and> ''ringing'' \<in> set ONGOING_STATUSES \<and> toLowerCase ''Ringing'' = ''ringing''
   \<and> classify ('' '' @ ''Ringing'' @ '' '') False = Ongoing
   \<and> classify ('' '' @ ''Ringing'' @ '' '') True = Final
   \<and> normalise ''queued'' \<notin> set FINAL_STATUSES \<and> normalise ''queued'' \<notin> set ONGOING_STATUSES
   \<and> classify ''queued'' False = Unknown"
proof -
  have f: "''completed'' \<in> set FINAL_STATUSES" "toLowerCase ''COMPLETED'' = ''completed''"
    by (simp_all add: FINAL_STATUSES_def toLowerCase_def lower_char_def char_of_eq_iff)
  have o: "''ringing'' \<in> set ONGOING_STATUSES" "toLowerCase ''Ringing'' = ''ringing''"
    by (simp_all add: ONGOING_STATUSES_def toLowerCase_def lower_char_def char_of_eq_iff)
  have sp: "\<forall>c\<in>set '' ''. is_space c"
    by (simp add: is_space_def)
  have q: "normalise ''queued'' \<notin> set FINAL_STATUSES" "normalise ''queued'' \<notin> set ONGOING_STATUSES"
    by (simp_all add: normalise_def trim_def toLowerCase_def lower_char_def is_space_def
        FINAL_STATUSES_def ONGOING_STATUSES_def)
  have a: "classify ('' '' @ ''COMPLETED'' @ '' '') False = Final"
    using f sp status_classification [where t = "''completed''" and u = "''COMPLETED''"
        and l = "'' ''" and r = "'' ''" and artifacts = False and raw = "''queued''"]
    by blast
  have b: "classify ('' '' @ ''Ringing'' @ '' '') False = Ongoing"
    using o sp status_classification [where t = "''ringing''" and u = "''Ringing''"
        and l = "'' ''" and r = "'' ''" and artifacts = False and raw = "''queued''"]
    by auto
  have c: "classify ('' '' @ ''Ringing'' @ '' '') True = Final"
    using o sp status_classification [where t = "''ringing''" and u = "''Ringing''"
        and l = "'' ''" and r = "'' ''" and artifacts = True and raw = "''queued''"]
    by auto
  have d: "classify ''queued'' False = Unknown"
    using q status_classification [where t = "''ringing''" and u = "''Ringing''"
        and l = "'' ''" and r = "'' ''" and artifacts = False and raw = "''queued''"]
    by auto
  have sp1: "is_space CHR '' ''"
    by (simp add: is_space_def)
  show ?thesis using f o sp1 q a b c d by blast
qed

text \<open>
  The claim C6 as stated fails for the inputs outside both sets: the empty status with
  end-of-call artifacts present is not Unknown, the watcher releases on it (line 104) with
  the label \<open>ended_by_artifacts\<close> (line 105).
\<close>

theorem unknown_with_artifacts_counterexample:
  "normalise [] \<notin> set FINAL_STATUSES \<and> normalise [] \<notin> set ONGOING_STATUSES
   \<and> classify [] True \<noteq> Unknown"
  by (simp add: classify_def isFinal_def normalise_def trim_def toLowerCase_def
      FINAL_STATUSES_def ONGOING_STATUSES_def)

section \<open>The watcher\<close>

lemma statusText_with_status:
  "statusText (with_status ''ringing'') = ''ringing''"
  "statusText (with_status ''connected'') = ''connected''"
  "statusText (with_status ''completed'') = ''completed''"
  by (simp_all add: statusText_def rawStatus_def with_status_def no_callLog_def js_or_def
      normalise_def trim_def toLowerCase_def lower_char_def is_space_def)

lemma no_artifacts: "\<not> hasEndArtifacts (with_status st)"
  by (simp add: hasEndArtifacts_def with_status_def no_callLog_def)

lemma not_final_ongoing:
  "\<not> isFinal ''ringing'' False" "\<not> isFinal ''connected'' False"
  by (simp_all add: isFinal_def FINAL_STATUSES_def)

lemma empty_not_final: "[] \<notin> set FINAL_STATUSES"
  by (simp add: FINAL_STATUSES_def)

lemma onDetail_hold:
  assumes st: "\<not> isFinal (statusText cd) (hasEndArtifacts cd)"
    and early: "seenOngoingAt w = 0 \<or> now < seenOngoingAt w + 5000"
  shows "snd (onDetail now cd lr w s) = s"
proof (cases "seenOngoingAt w = 0")
  case True
  with st show ?thesis
    by (simp add: onDetail_def Let_def)
next
  case False
  with early have "\<not> 5000 \<le> now - seenOngoingAt w" by arith
  with False st show ?thesis
    by (simp add: onDetail_def Let_def)
qed

lemma onDetail_watch:
  "w_agentId (fst (onDetail now cd lr w s)) = w_agentId w
   \<and> (seenOngoingAt (fst (onDetail now cd lr w s)) = seenOngoingAt w
         \<or> seenOngoingAt w = 0 \<and> seenOngoingAt (fst (onDetail now cd lr w s)) = now)"
  by (simp add: onDetail_def Let_def)

lemma tick_hold:
  assumes w: "watchers s i = Some w" and act: "i \<in> intervals s"
    and st: "\<not> isFinal (statusText cd) (hasEndArtifacts cd)"
    and early: "seenOngoingAt w = 0 \<or> now < seenOngoingAt w + 5000"
  shows "agentLocks (tick i now (Inr cd) lr s) = agentLocks s
    \<and> released (tick i now (Inr cd) lr s) = released s
    \<and> i \<in> intervals (tick i now (Inr cd) lr s)
    \<and> (\<exists>w'. watchers (tick i now (Inr cd) lr s) i = Some w' \<and> w_agentId w' = w_agentId w
          \<and> (seenOngoingAt w' = seenOngoingAt w \<or> seenOngoingAt w = 0 \<and> seenOngoingAt w' = now))"
  using w act onDetail_watch [of now cd lr w "s\<lparr>inflight := remove1 i (inflight s @ [i])\<rparr>"]
  by (simp add: tick_def tickResume_def intervalFire_def Let_def onDetail_hold [OF st early])

lemma resume_final:
  assumes "i \<in> set (inflight s)" "watchers s i = Some w"
    and "statusText cd \<in> set FINAL_STATUSES"
  shows "agentLocks (tickResume i now (Inr cd) lr s) (w_agentId w) = None
    \<and> last (released (tickResume i now (Inr cd) lr s))
        = (w_agentId w, ''final_status:'' @ statusText cd)"
proof -
  have ne: "statusText cd \<noteq> []" using assms(3) empty_not_final by metis
  show ?thesis using assms ne
    by (simp add: tickResume_def onDetail_def Let_def isFinal_def releaseAgentLock_def)
qed

lemma dispatch_c1:
  assumes "agentLocks s ''A1'' = None"
  shows "agentLocks (snd (dispatch t0 request_A1 (Inr payload_c1) s)) ''A1''
      = Some \<lparr>currentCallId = Str ''c1'', startedAt = Some t0, timer = Some (next_handle s),
          interval = Some (Suc (next_handle s))\<rparr>
    \<and> released (snd (dispatch t0 request_A1 (Inr payload_c1) s)) = released s
    \<and> Suc (next_handle s) \<in> intervals (snd (dispatch t0 request_A1 (Inr payload_c1) s))
    \<and> (\<exists>w. watchers (snd (dispatch t0 request_A1 (Inr payload_c1) s)) (Suc (next_handle s)) = Some w
          \<and> w_agentId w = ''A1'' \<and> seenOngoingAt w = 0)"
  using assms
  by (simp add: dispatch_def dispatchAccept_def dispatchResume_def has_token_def token_of_def
      agentKey_of_def js_or_def request_A1_def payload_c1_def Let_def startCompletionWatcher_def)

lemma start_keeps_released:
  "released (startCompletionWatcher a c now s) = released s
   \<and> agentLocks (startCompletionWatcher a c now s) a \<noteq> None
   \<and> released (intervalFire j s) = released s
   \<and> agentLocks (intervalFire j s) = agentLocks s"
  by (simp add: startCompletionWatcher_def intervalFire_def Let_def)

lemma scenario_c1:
  assumes free: "agentLocks s ''A1'' = None"
    and times: "t1 \<le> t2" "t2 \<le> t3" "t3 < t1 + 5000"
  shows "(let i = Suc (next_handle s);
          s0 = snd (dispatch t0 request_A1 (Inr payload_c1) s);
          s1 = tick i t1 (Inr (with_status ''ringing'')) l1 s0;
          s2 = tick i t2 (Inr (with_status ''ringing'')) l2 s1;
          s3 = tick i t3 (Inr (with_status ''connected'')) l3 s2;
          s4 = tick i t4 (Inr (with_status ''completed'')) l4 s3
      in agentLocks s0 ''A1'' \<noteq> None \<and> agentLocks s1 ''A1'' \<noteq> None
         \<and> agentLocks s2 ''A1'' \<noteq> None \<and> agentLocks s3 ''A1'' \<noteq> None
         \<and> released s3 = released s
         \<and> agentLocks s4 ''A1'' = None
         \<and> last (released s4) = (''A1'', ''final_status:completed''))"
proof -
  let ?i = "Suc (next_handle s)"
  let ?s0 = "snd (dispatch t0 request_A1 (Inr payload_c1) s)"
  let ?s1 = "tick ?i t1 (Inr (with_status ''ringing'')) l1 ?s0"
  let ?s2 = "tick ?i t2 (Inr (with_status ''ringing'')) l2 ?s1"
  let ?s3 = "tick ?i t3 (Inr (with_status ''connected'')) l3 ?s2"
  let ?s4 = "tick ?i t4 (Inr (with_status ''completed'')) l4 ?s3"
  have ring: "\<not> isFinal (statusText (with_status ''ringing'')) (hasEndArtifacts (with_status ''ringing''))"
    by (simp add: statusText_with_status no_artifacts not_final_ongoing)
  have conn: "\<not> isFinal (statusText (with_status ''connected'')) (hasEndArtifacts (with_status ''connected''))"
    by (simp add: statusText_with_status no_artifacts not_final_ongoing)
  from dispatch_c1 [OF free, of t0] obtain w0 where
    l0: "agentLocks ?s0 ''A1'' \<noteq> None" and r0: "released ?s0 = released s"
    and i0: "?i \<in> intervals ?s0" and w0: "watchers ?s0 ?i = Some w0"
    and a0: "w_agentId w0 = ''A1''" and o0: "seenOngoingAt w0 = 0"
    by auto
  from tick_hold [OF w0 i0 ring, of t1 l1] o0 obtain w1 where
    l1: "agentLocks ?s1 = agentLocks ?s0" and r1: "released ?s1 = released ?s0"
    and i1: "?i \<in> intervals ?s1" and w1: "watchers ?s1 ?i = Some w1"
    and a1: "w_agentId w1 = w_agentId w0" and o1: "seenOngoingAt w1 = 0 \<or> seenOngoingAt w1 = t1"
    by auto
  from o1 times have e1: "seenOngoingAt w1 = 0 \<or> t2 < seenOngoingAt w1 + 5000" by auto
  from tick_hold [OF w1 i1 ring e1, of l2] obtain w2 where
    l2: "agentLocks ?s2 = agentLocks ?s1" and r2: "released ?s2 = released ?s1"
    and i2: "?i \<in> intervals ?s2" and w2: "watchers ?s2 ?i = Some w2"
    and a2: "w_agentId w2 = w_agentId w1"
    and o2: "seenOngoingAt w2 = seenOngoingAt w1 \<or> seenOngoingAt w1 = 0 \<and> seenOngoingAt w2 = t2"
    by auto
  from o1 o2 times have e2: "seenOngoingAt w2 = 0 \<or> t3 < seenOngoingAt w2 + 5000" by auto
  from tick_hold [OF w2 i2 conn e2, of l3] obtain w3 where
    l3: "agentLocks ?s3 = agentLocks ?s2" and r3: "released ?s3 = released ?s2"
    and i3: "?i \<in> intervals ?s3" and w3: "watchers ?s3 ?i = Some w3"
    and a3: "w_agentId w3 = w_agentId w2"
    by auto
  have fl: "?i \<in> set (inflight (intervalFire ?i ?s3))"
    and fw: "watchers (intervalFire ?i ?s3) ?i = Some w3"
    using i3 w3 by (simp_all add: intervalFire_def)
  have fin: "statusText (with_status ''completed'') \<in> set FINAL_STATUSES"
    by (simp add: statusText_with_status FINAL_STATUSES_def)
  from resume_final [OF fl fw fin, of t4 l4] a0 a1 a2 a3
  have l4: "agentLocks ?s4 ''A1'' = None"
    and r4: "last (released ?s4) = (''A1'', ''final_status:completed'')"
    by (simp_all add: tick_def statusText_with_status)
  from l0 l1 l2 l3 r0 r1 r2 r3 l4 r4 show ?thesis
    by (simp add: Let_def)
qed

text \<open>The watcher follows the classification: Final releases, Ongoing is remembered.\<close>

lemma classify_Final_releases:
  assumes "classify (rawStatus cd) (hasEndArtifacts cd) = Final"
  shows "agentLocks (snd (onDetail now cd lr w s)) (w_agentId w) = None"
proof -
  from assms have "isFinal (statusText cd) (hasEndArtifacts cd)"
    by (simp add: classify_def statusText_def Let_def split: if_splits)
  then show ?thesis
    by (simp add: onDetail_def Let_def releaseAgentLock_locks)
qed

lemma classify_not_Final_keeps:
  assumes "classify (rawStatus cd) (hasEndArtifacts cd) \<noteq> Final"
    and "seenOngoingAt w = 0 \<or> now < seenOngoingAt w + 5000"
  shows "snd (onDetail now cd lr w s) = s"
proof -
  from assms(1) have "\<not> isFinal (statusText cd) (hasEndArtifacts cd)"
    by (simp add: classify_def statusText_def Let_def split: if_splits)
  then show ?thesis using assms(2) by (rule onDetail_hold)
qed

lemma classify_Ongoing_latches:
  assumes "classify (rawStatus cd) (hasEndArtifacts cd) = Ongoing"
  shows "seenOngoing (fst (onDetail now cd lr w s))"
proof -
  from assms have "isOngoing (statusText cd)"
    by (simp add: classify_def statusText_def Let_def split: if_splits)
  then show ?thesis
    by (simp add: onDetail_def Let_def)
qed

text \<open>
  C7. After the dispatch for agent \<open>A1\<close> answered \<open>{call_log_id: "c1"}\<close>, with the
  detail polls answering \<open>ringing\<close>, \<open>ringing\<close>, \<open>connected\<close>, \<open>completed\<close>, one
  per tick and without artifacts, the first three ticks falling within five seconds (so
  that no list cross-check is due), whatever the list endpoint would answer: the entry of
  \<open>A1\<close> is there after the dispatch and after each of the first three ticks, nothing
  has been released by then, and the fourth tick removes it with the reason
  \<open>final_status:completed\<close>. Starting a watcher and the firing of its interval release
  nothing; and any tick in flight whose detail answer has a status of the Final set removes
  the agent's entry in that same tick.
\<close>

theorem watcher_holds_until_final:
  "(agentLocks s ''A1'' = None \<and> t1 \<le> t2 \<and> t2 \<le> t3 \<and> t3 < t1 + 5000 \<longrightarrow>
      (let i = Suc (next_handle s);
           s0 = snd (dispatch t0 request_A1 (Inr payload_c1) s);
           s1 = tick i t1 (Inr (with_status ''ringing'')) l1 s0;
           s2 = tick i t2 (Inr (with_status ''ringing'')) l2 s1;
           s3 = tick i t3 (Inr (with_status ''connected'')) l3 s2;
           s4 = tick i t4 (Inr (with_status ''completed'')) l4 s3
       in agentLocks s0 ''A1'' \<noteq> None \<and> agentLocks s1 ''A1'' \<noteq> None
          \<and> agentLocks s2 ''A1'' \<noteq> None \<and> agentLocks s3 ''A1'' \<noteq> None
          \<and> released s3 = released s
          \<and> agentLocks s4 ''A1'' = None
          \<and> last (released s4) = (''A1'', ''final_status:completed'')))
   \<and> released (startCompletionWatcher a c now s) = released s
   \<and> agentLocks (startCompletionWatcher a c now s) a \<noteq> None
   \<and> released (intervalFire j s) = released s
   \<and> agentLocks (intervalFire j s) = agentLocks s
   \<and> (j \<in> set (inflight s) \<and> watchers s j = Some w
        \<and> statusText cd \<in> set FINAL_STATUSES \<longrightarrow>
        agentLocks (tickResume j now (Inr cd) lr s) (w_agentId w) = None
        \<and> last (released (tickResume j now (Inr cd) lr s))
            = (w_agentId w, ''final_status:'' @ statusText cd))"
  using scenario_c1 [of s t1 t2 t3 t0 l1 l2 l3 t4 l4] start_keeps_released [of a c now s j]
    resume_final [of j s w cd now lr]
  by blast

theorem watcher_holds_until_final_witness:
  "agentLocks init_server ''A1'' = None \<and> (2000::nat) \<le> 3000 \<and> (3000::nat) \<le> 4000
   \<and> (4000::nat) < 2000 + 5000
   \<and> (let s0 = snd (dispatch 1000 request_A1 (Inr payload_c1) init_server);
           s1 = tick 1 2000 (Inr (with_status ''ringing'')) (Inr None) s0;
           s2 = tick 1 3000 (Inr (with_status ''ringing'')) (Inr None) s1;
           s3 = tick 1 4000 (Inr (with_status ''connected'')) (Inr None) s2;
           s4 = tick 1 5000 (Inr (with_status ''completed'')) (Inr None) s3
       in agentLocks s0 ''A1'' \<noteq> None \<and> agentLocks s1 ''A1'' \<noteq> None
          \<and> agentLocks s2 ''A1'' \<noteq> None \<and> agentLocks s3 ''A1'' \<noteq> None
          \<and> released s3 = []
          \<and> agentLocks s4 ''A1'' = None
          \<and> last (released s4) = (''A1'', ''final_status:completed''))
   \<and> 1 \<in> set (inflight (intervalFire 1 (snd (dispatch 1000 request_A1 (Inr payload_c1) init_server))))
   \<and> statusText (with_status ''completed'') \<in> set FINAL_STATUSES
   \<and> agentLocks (tickResume 1 2000 (Inr (with_status ''completed'')) (Inr None)
        (intervalFire 1 (snd (dispatch 1000 request_A1 (Inr payload_c1) init_server)))) ''A1'' = None"
proof -
  let ?s0 = "snd (dispatch 1000 request_A1 (Inr payload_c1) init_server)"
  let ?w = "\<lparr>w_agentId = ''A1'', w_callLogId = Str ''c1'', w_startedAt = 1000,
     lastStatus = None, startLogged = False, seenOngoing = False, seenOngoingAt = 0,
     lastListCheckAt = 0, consecutiveErrors = 0, lastSuccessAt = 1000\<rparr>"
  have free: "agentLocks init_server ''A1'' = None" "next_handle init_server = 0"
    "released init_server = []"
    by (simp_all add: init_server_def)
  have fl: "1 \<in> set (inflight (intervalFire 1 ?s0))"
    and fw: "watchers (intervalFire 1 ?s0) 1 = Some ?w"
    by (simp_all add: endpoint_eval startCompletionWatcher_def intervalFire_def)
  have fin: "statusText (with_status ''completed'') \<in> set FINAL_STATUSES"
    by (simp add: statusText_with_status FINAL_STATUSES_def)
  have g: "agentLocks (tickResume 1 2000 (Inr (with_status ''completed'')) (Inr None)
        (intervalFire 1 ?s0)) ''A1'' = None"
    using fl fw fin
      watcher_holds_until_final [of "intervalFire 1 ?s0" 2000 3000 4000 1000 "Inr None"
        "Inr None" "Inr None" 5000 "Inr None" "''A1''" "Str ''c1''" 2000 1 ?w
        "with_status ''completed''" "Inr None"]
    by simp
  have sc: "(let s0 = snd (dispatch 1000 request_A1 (Inr payload_c1) init_server);
           s1 = tick 1 2000 (Inr (with_status ''ringing'')) (Inr None) s0;
           s2 = tick 1 3000 (Inr (with_status ''ringing'')) (Inr None) s1;
           s3 = tick 1 4000 (Inr (with_status ''connected'')) (Inr None) s2;
           s4 = tick 1 5000 (Inr (with_status ''completed'')) (Inr None) s3
       in agentLocks s0 ''A1'' \<noteq> None \<and> agentLocks s1 ''A1'' \<noteq> None
          \<and> agentLocks s2 ''A1'' \<noteq> None \<and> agentLocks s3 ''A1'' \<noteq> None
          \<and> released s3 = []
          \<and> agentLocks s4 ''A1'' = None
          \<and> last (released s4) = (''A1'', ''final_status:completed''))"
    using free
      watcher_holds_until_final [of init_server 2000 3000 4000 1000 "Inr None"
        "Inr None" "Inr None" 5000 "Inr None" "''A1''" "Str ''c1''" 2000 1 ?w
        "with_status ''completed''" "Inr None"]
    by simp
  show ?thesis using free(1) fl fin g sc by simp
qed

lemmas watcher_eval = startCompletionWatcher_def tick_def tickResume_def intervalFire_def
  onDetail_def onError_def crossCheck_def isFinal_def isOngoing_def FINAL_STATUSES_def
  ONGOING_STATUSES_def MAX_WATCH_MS_def releaseAgentLock_def clearInterval_def clearTimeout_def
  agentRelease_def timeoutFire_def

lemma is5xx_503: "is5xx error_503"
  by (simp add: is5xx_def error_503_def)

lemma connected_A1_eq:
  "connected_A1 = \<lparr>agentLocks = [''A1'' \<mapsto> \<lparr>currentCallId = Str ''c1'', startedAt = Some 1000,
        timer = Some 0, interval = Some 1\<rparr>],
      timeouts = [0 \<mapsto> (601000, ''A1'', ''timeout'')],
      intervals = {1},
      watchers = [1 \<mapsto> \<lparr>w_agentId = ''A1'', w_callLogId = Str ''c1'', w_startedAt = 1000,
         lastStatus = Some ''connected'', startLogged = True, seenOngoing = True,
         seenOngoingAt = 2000, lastListCheckAt = 0, consecutiveErrors = 0,
         lastSuccessAt = 2000\<rparr>],
      inflight = [], next_handle = 2, released = []\<rparr>"
  by (simp add: connected_A1_def endpoint_eval watcher_eval statusText_with_status no_artifacts)

text \<open>
  C1, at the failing input: the watcher of \<open>connected_A1\<close> has seen the call ongoing;
  the detail endpoint then answers HTTP 503 on ten successive ticks, one second apart,
  while the list endpoint answers with an empty array. The error is server-side, the
  streak reaches 10, and the lock entry is still there with nothing released: the
  emergency unlock is only reached when the list request itself throws.
\<close>

theorem error_fallback_unreached:
  "is5xx error_503
   \<and> map_option seenOngoing (watchers connected_A1 1) = Some True
   \<and> map_option consecutiveErrors (watchers (ticks 1 (map (\<lambda>t. (t, Inl error_503, Inr (Some [])))
        [3000, 4000, 5000, 6000, 7000, 8000, 9000, 10000, 11000, 12000]) connected_A1) 1) = Some 10
   \<and> agentLocks (ticks 1 (map (\<lambda>t. (t, Inl error_503, Inr (Some [])))
        [3000, 4000, 5000, 6000, 7000, 8000, 9000, 10000, 11000, 12000]) connected_A1) ''A1''
     = Some \<lparr>currentCallId = Str ''c1'', startedAt = Some 1000, timer = Some 0, interval = Some 1\<rparr>
   \<and> released (ticks 1 (map (\<lambda>t. (t, Inl error_503, Inr (Some [])))
        [3000, 4000, 5000, 6000, 7000, 8000, 9000, 10000, 11000, 12000]) connected_A1) = []"
  by (simp add: connected_A1_eq tick_def tickResume_def intervalFire_def onError_def is5xx_503
      crossCheck_def Let_def)

lemma release_cancels:
  assumes "agentLocks s a = Some l" "interval l = Some i" "timer l = Some t"
  shows "i \<notin> intervals (releaseAgentLock a r s)"
    and "timeouts (releaseAgentLock a r s) t = None"
    and "intervalFire i (releaseAgentLock a r s) = releaseAgentLock a r s"
    and "timeoutFire t (releaseAgentLock a r s) = releaseAgentLock a r s"
    and "inflight (releaseAgentLock a r s) = inflight s"
  using assms
  by (simp_all add: releaseAgentLock_def clearInterval_def clearTimeout_def intervalFire_def
      timeoutFire_def Let_def)

text \<open>
  C4, as the code has it. Whatever calls \<open>releaseAgentLock\<close> (a final status, the
  failsafe, the client, the error fallback), the interval and the timeout whose handles
  the agent's entry holds are cleared: the interval starts no tick any more and the timeout
  does nothing when its time comes; and a watcher with no tick in flight at the release
  does nothing afterwards. The entry that \<open>startCompletionWatcher\<close> writes holds the
  handles of that watcher. Nothing is said of a tick that is in flight at the release.
\<close>

theorem release_cancels_timers:
  "(agentLocks s a = Some l \<and> interval l = Some i \<and> timer l = Some t \<longrightarrow>
       i \<notin> intervals (releaseAgentLock a r s)
       \<and> timeouts (releaseAgentLock a r s) t = None
       \<and> intervalFire i (releaseAgentLock a r s) = releaseAgentLock a r s
       \<and> timeoutFire t (releaseAgentLock a r s) = releaseAgentLock a r s
       \<and> (i \<notin> set (inflight s) \<longrightarrow>
            tickResume i now detail listResp (releaseAgentLock a r s) = releaseAgentLock a r s))
   \<and> agentLocks (startCompletionWatcher a c t0 s) a
       = Some \<lparr>currentCallId = c, startedAt = Some t0, timer = Some (next_handle s),
           interval = Some (Suc (next_handle s))\<rparr>"
proof (intro conjI impI)
  assume h: "agentLocks s a = Some l \<and> interval l = Some i \<and> timer l = Some t"
  then have l: "agentLocks s a = Some l" "interval l = Some i" "timer l = Some t"
    by simp_all
  show "i \<notin> intervals (releaseAgentLock a r s)"
    "timeouts (releaseAgentLock a r s) t = None"
    "intervalFire i (releaseAgentLock a r s) = releaseAgentLock a r s"
    "timeoutFire t (releaseAgentLock a r s) = releaseAgentLock a r s"
    using release_cancels [OF l] by simp_all
  assume "i \<notin> set (inflight s)"
  then show "tickResume i now detail listResp (releaseAgentLock a r s) = releaseAgentLock a r s"
    using release_cancels(5) [OF l, of r] by (simp add: tickResume_def)
next
  show "agentLocks (startCompletionWatcher a c t0 s) a
       = Some \<lparr>currentCallId = c, startedAt = Some t0, timer = Some (next_handle s),
           interval = Some (Suc (next_handle s))\<rparr>"
    by (simp add: startCompletionWatcher_def Let_def)
qed

theorem release_cancels_timers_witness:
  "agentLocks (snd (dispatch 1000 request_A1 (Inr payload_c1) init_server)) ''A1''
     = Some \<lparr>currentCallId = Str ''c1'', startedAt = Some 1000, timer = Some 0, interval = Some 1\<rparr>
   \<and> 1 \<in> intervals (snd (dispatch 1000 request_A1 (Inr payload_c1) init_server))
   \<and> timeouts (snd (dispatch 1000 request_A1 (Inr payload_c1) init_server)) 0
       = Some (601000, ''A1'', ''timeout'')
   \<and> 1 \<notin> set (inflight (snd (dispatch 1000 request_A1 (Inr payload_c1) init_server)))
   \<and> 1 \<notin> intervals (releaseAgentLock ''A1'' ''frontend_release''
        (snd (dispatch 1000 request_A1 (Inr payload_c1) init_server)))
   \<and> timeouts (releaseAgentLock ''A1'' ''frontend_release''
        (snd (dispatch 1000 request_A1 (Inr payload_c1) init_server))) 0 = None
   \<and> tickResume 1 3000 (Inr (with_status ''completed'')) (Inr None)
        (releaseAgentLock ''A1'' ''frontend_release''
          (snd (dispatch 1000 request_A1 (Inr payload_c1) init_server)))
       = releaseAgentLock ''A1'' ''frontend_release''
          (snd (dispatch 1000 request_A1 (Inr payload_c1) init_server))"
proof -
  let ?s = "snd (dispatch 1000 request_A1 (Inr payload_c1) init_server)"
  let ?l = "\<lparr>currentCallId = Str ''c1'', startedAt = Some 1000, timer = Some 0, interval = Some 1\<rparr>"
  have h: "agentLocks ?s ''A1'' = Some ?l" "interval ?l = Some 1" "timer ?l = Some 0"
    "1 \<notin> set (inflight ?s)" "1 \<in> intervals ?s"
    "timeouts ?s 0 = Some (601000, ''A1'', ''timeout'')"
    by (simp_all add: endpoint_eval startCompletionWatcher_def MAX_WATCH_MS_def)
  from h release_cancels_timers [of ?s "''A1''" ?l 1 0 "''frontend_release''" 3000
      "Inr (with_status ''completed'')" "Inr None" "Str ''c1''" 1000]
  show ?thesis by simp
qed

text \<open>
  The claim C4 as stated fails for a tick in flight. The watcher of call \<open>c1\<close> fires at
  its interval and awaits the provider; the client releases \<open>A1\<close>, which clears the
  interval; a new dispatch for \<open>A1\<close> is accepted and writes a fresh entry; the old tick
  then resumes with \<open>completed\<close> and removes the entry of the new dispatch.
\<close>

theorem inflight_tick_counterexample:
  "1 \<in> intervals (snd (dispatch 1000 request_A1 (Inr payload_c1) init_server))
   \<and> 1 \<notin> intervals (snd (agentRelease request_A1
        (intervalFire 1 (snd (dispatch 1000 request_A1 (Inr payload_c1) init_server)))))
   \<and> agentLocks (snd (dispatchAccept 2500 request_A1 (snd (agentRelease request_A1
        (intervalFire 1 (snd (dispatch 1000 request_A1 (Inr payload_c1) init_server))))))) ''A1''
       = Some \<lparr>currentCallId = Null, startedAt = Some 2500, timer = None, interval = None\<rparr>
   \<and> agentLocks (tickResume 1 2600 (Inr (with_status ''completed'')) (Inr None)
        (snd (dispatchAccept 2500 request_A1 (snd (agentRelease request_A1
          (intervalFire 1 (snd (dispatch 1000 request_A1 (Inr payload_c1) init_server)))))))) ''A1''
       = None
   \<and> released (tickResume 1 2600 (Inr (with_status ''completed'')) (Inr None)
        (snd (dispatchAccept 2500 request_A1 (snd (agentRelease request_A1
          (intervalFire 1 (snd (dispatch 1000 request_A1 (Inr payload_c1) init_server))))))))
       = [(''A1'', ''frontend_release''), (''A1'', ''final_status:completed'')]"
  by (simp add: endpoint_eval watcher_eval statusText_with_status no_artifacts)

section \<open>The client\<close>

lemma same_vocabulary:
  "set client_FINAL_STATUSES = set FINAL_STATUSES"
  "set client_ONGOING_STATUSES = set ONGOING_STATUSES"
  by (auto simp: client_FINAL_STATUSES_def FINAL_STATUSES_def client_ONGOING_STATUSES_def
      ONGOING_STATUSES_def)

lemma artifacts_client: "hasEndArtifacts cd \<Longrightarrow> client_hasEndArtifacts cd"
  by (auto simp: hasEndArtifacts_def client_hasEndArtifacts_def)

text \<open>
  C5, as the code has it. \<open>waitForCallCompletion\<close> declares the same Final and Ongoing
  sets as the server, every artifact the server looks at is one the client looks at, and
  on a successful poll whose record the server's classification calls Final the client
  returns that record as finished. The converse is not claimed.
\<close>

theorem client_finishes_when_server_final:
  "set client_FINAL_STATUSES = set FINAL_STATUSES
   \<and> set client_ONGOING_STATUSES = set ONGOING_STATUSES
   \<and> (hasEndArtifacts cd \<longrightarrow> client_hasEndArtifacts cd)
   \<and> (resp_ok code \<and> classify (rawStatus cd) (hasEndArtifacts cd) = Final \<longrightarrow>
        clientPoll now callLogId (Response code cd) listResp p = Inl cd)"
proof (intro conjI impI)
  show "set client_FINAL_STATUSES = set FINAL_STATUSES"
    "set client_ONGOING_STATUSES = set ONGOING_STATUSES"
    by (rule same_vocabulary)+
  show "client_hasEndArtifacts cd" if "hasEndArtifacts cd"
    using that by (rule artifacts_client)
  assume h: "resp_ok code \<and> classify (rawStatus cd) (hasEndArtifacts cd) = Final"
  then have "isFinal (statusText cd) (hasEndArtifacts cd)"
    by (simp add: classify_def statusText_def Let_def split: if_splits)
  then have "statusText cd \<in> set client_FINAL_STATUSES \<or> client_hasEndArtifacts cd"
    using artifacts_client by (auto simp: isFinal_def same_vocabulary)
  with h show "clientPoll now callLogId (Response code cd) listResp p = Inl cd"
    by (auto simp: clientPoll_def Let_def)
qed

theorem client_finishes_when_server_final_witness:
  "resp_ok 200 \<and> classify (rawStatus (with_status ''Completed'')) 
       (hasEndArtifacts (with_status ''Completed'')) = Final
   \<and> clientPoll 1000 (Str ''c1'') (Response 200 (with_status ''Completed'')) Rejected
        (init_poll 0) = Inl (with_status ''Completed'')
   \<and> hasEndArtifacts (no_callLog\<lparr>duration := Num 42\<rparr>)
   \<and> client_hasEndArtifacts (no_callLog\<lparr>duration := Num 42\<rparr>)"
proof -
  have r: "resp_ok 200" by (simp add: resp_ok_def)
  have c: "classify (rawStatus (with_status ''Completed''))
       (hasEndArtifacts (with_status ''Completed'')) = Final"
    by (simp add: classify_def isFinal_def rawStatus_def with_status_def no_callLog_def
        js_or_def normalise_def trim_def toLowerCase_def lower_char_def is_space_def
        char_of_eq_iff FINAL_STATUSES_def)
  have a: "hasEndArtifacts (no_callLog\<lparr>duration := Num 42\<rparr>)"
    by (simp add: hasEndArtifacts_def no_callLog_def)
  have p: "clientPoll 1000 (Str ''c1'') (Response 200 (with_status ''Completed'')) Rejected
        (init_poll 0) = Inl (with_status ''Completed'')"
    using r c client_finishes_when_server_final [of "with_status ''Completed''" 200 1000
        "Str ''c1''" Rejected "init_poll 0"]
    by blast
  have q: "client_hasEndArtifacts (no_callLog\<lparr>duration := Num 42\<rparr>)"
    using a client_finishes_when_server_final [of "no_callLog\<lparr>duration := Num 42\<rparr>" 200 1000
        "Str ''c1''" Rejected "init_poll 0"]
    by blast
  show ?thesis using r c a p q by blast
qed

text \<open>
  The claim C5 as stated fails in the other direction: on the second successive poll
  that answers \<open>queued\<close>, a status outside the Final set and with no artifacts, the
  client returns the call as finished, while the server's classification of that record
  is Unknown.
\<close>

theorem client_streak_counterexample:
  "waitForCallCompletion 0 (Str ''c1'')
      [(1000, Response 200 (with_status ''queued''), Rejected),
       (2000, Response 200 (with_status ''queued''), Rejected)]
     = Returned (Some (with_status ''queued''))
   \<and> statusText (with_status ''queued'') \<notin> set client_FINAL_STATUSES
   \<and> \<not> client_hasEndArtifacts (with_status ''queued'')
   \<and> classify (rawStatus (with_status ''queued'')) (hasEndArtifacts (with_status ''queued''))
       = Unknown"
proof -
  have st: "statusText (with_status ''queued'') = ''queued''"
    "rawStatus (with_status ''queued'') = ''queued''"
    "normalise ''queued'' = ''queued''"
    by (simp_all add: statusText_def rawStatus_def with_status_def no_callLog_def js_or_def
        normalise_def trim_def toLowerCase_def lower_char_def is_space_def)
  have na: "\<not> client_hasEndArtifacts (with_status ''queued'')"
    "\<not> hasEndArtifacts (with_status ''queued'')"
    by (simp_all add: client_hasEndArtifacts_def hasEndArtifacts_def with_status_def
        no_callLog_def)
  have v: "''queued'' \<notin> set client_FINAL_STATUSES" "''queued'' \<notin> set client_ONGOING_STATUSES"
    "''queued'' \<notin> set FINAL_STATUSES" "''queued'' \<notin> set ONGOING_STATUSES"
    by (simp_all add: client_FINAL_STATUSES_def client_ONGOING_STATUSES_def FINAL_STATUSES_def
        ONGOING_STATUSES_def)
  have p1: "clientPoll 1000 (Str ''c1'') (Response 200 (with_status ''queued'')) Rejected
      (init_poll 0) = Inr ((init_poll 0)\<lparr>consecutiveNonOngoing := 1, c_lastSuccessAt := 1000\<rparr>)"
    using st na v
    by (simp add: clientPoll_def clientListCheck_def resp_ok_def init_poll_def Let_def)
  have p2: "clientPoll 2000 (Str ''c1'') (Response 200 (with_status ''queued'')) Rejected
      ((init_poll 0)\<lparr>consecutiveNonOngoing := 1, c_lastSuccessAt := 1000\<rparr>)
      = Inl (with_status ''queued'')"
    using st na v
    by (simp add: clientPoll_def clientListCheck_def resp_ok_def init_poll_def Let_def)
  show ?thesis
    using st na v p1 p2
    by (simp add: waitForCallCompletion_def MAX_POLL_TIME_def classify_def isFinal_def
        isOngoing_def)
qed

end
